theory Spec2Isabelle
  imports Main
begin

section \<open>Request bodies\<close>

text \<open>
  The handlers of \<^verbatim>\<open>server.js\<close> destructure \<^verbatim>\<open>req.body\<close>. A field of a body is
  modelled at the type its column has in the schema, and may be absent: a text field is a
  \<open>string option\<close>, an integer field an \<open>int option\<close>, \<open>None\<close> standing for
  \<^verbatim>\<open>undefined\<close>. Only \<^verbatim>\<open>used_ai_behavioral\<close>, which the code coerces by truthiness,
  is kept as a value of any primitive kind. Bodies whose fields hold values of another kind
  (a number or an array as \<^verbatim>\<open>userId\<close>, a number that is not an integer) are outside the
  model.
\<close>

datatype jsval = JUndefined | JNull | JBool bool | JNum int | JStr string

fun truthy :: "jsval \<Rightarrow> bool" where
  "truthy JUndefined = False"
| "truthy JNull = False"
| "truthy (JBool b) = b"
| "truthy (JNum n) = (n \<noteq> 0)"
| "truthy (JStr s) = (s \<noteq> [])"

definition falsy :: "string option \<Rightarrow> bool" where
  \<comment> \<open>\<^verbatim>\<open>!x\<close> for a text field: undefined and the empty string.\<close>
  "falsy x = (case x of None \<Rightarrow> True | Some s \<Rightarrow> s = [])"

definition js_string :: "string option \<Rightarrow> string" where
  \<comment> \<open>ToString, as a template literal and a property key apply it.\<close>
  "js_string x = (case x of None \<Rightarrow> ''undefined'' | Some s \<Rightarrow> s)"

record demographics_body =
  dem_participant_id :: "string option"
  dem_native_language :: "string option"
  dem_english_proficiency :: "int option"
  dem_years_in_us :: "int option"
  dem_ai_usage_frequency :: "int option"

record survey_body =
  sur_participant_id :: "string option"
  sur_scenario :: "string option"
  sur_draft_text :: "string option"
  sur_used_ai_self_report :: "string option"
  sur_used_ai_behavioral :: jsval
  sur_perceived_risk :: "int option"
  sur_authenticity :: "int option"

record chat_body =
  chat_userId :: "string option"
  chat_message :: "string option"
  chat_scenario :: "string option"
  chat_draft :: "string option"

record draft_body =
  sav_participant_id :: "string option"
  sav_scenario :: "string option"
  sav_draft_text :: "string option"

section \<open>Responses\<close>

datatype failure =
  Fetch_error string
| Json_error string
| Type_error
| Store_error string

datatype body =
  Error_body string
| Status_body string
| Reply_body "string option"
| Uncaught failure
  \<comment> \<open>an exception left the handler: whether and what the client is answered is the
      framework's business, not the source's; the model writes status 500 with it\<close>
| Not_modelled
  \<comment> \<open>the request is outside what the store represents, see \<open>read_slot\<close>\<close>

type_synonym response = "nat \<times> body"

section \<open>The tables\<close>

text \<open>
  A table is the list of its rows in insertion order. In a table with an
  \<^verbatim>\<open>AUTOINCREMENT\<close> key the id of a row is its position, since no statement of the
  program deletes from such a table. A column is nullable as the schema leaves it, and
  \<^verbatim>\<open>undefined\<close> is bound as \<^verbatim>\<open>NULL\<close> (\<open>None\<close>). A timestamp column holds the instant
  read from the clock, in milliseconds; the text stored is its ISO rendering.
\<close>

type_synonym instant = nat

record participant_row =
  p_participant_id :: "string option"
  p_created_at :: "string option"

record message_row =
  m_participant_id :: "string option"
  m_scenario :: "string option"
  m_role :: string
  m_content :: "string option"
  m_timestamp :: instant

record survey_row =
  s_participant_id :: "string option"
  s_scenario :: "string option"
  s_draft_text :: "string option"
  s_used_ai_self_report :: "string option"
  s_used_ai_behavioral :: int
  s_perceived_risk :: "int option"
  s_authenticity :: "int option"
  s_timestamp :: instant

record demographics_row =
  d_participant_id :: "string option"
  d_native_language :: "string option"
  d_english_proficiency :: "int option"
  d_years_in_us :: "int option"
  d_ai_usage_frequency :: "int option"

record draft_row =
  f_participant_id :: "string option"
  f_scenario :: "string option"
  f_draft_text :: "string option"
  f_timestamp :: instant

definition insert_row :: "'r \<Rightarrow> 'r list \<Rightarrow> failure + 'r list" where
  \<comment> \<open>\<^verbatim>\<open>INSERT INTO t ... .run(...)\<close>. The result is a sum because \<^verbatim>\<open>run\<close> can throw
      and two handlers catch it; the tables written this way carry no constraint, so the
      statement itself always appends.\<close>
  "insert_row r t = Inr (t @ [r])"

definition insert_or_replace ::
  "demographics_row \<Rightarrow> demographics_row list \<Rightarrow> failure + demographics_row list" where
  \<comment> \<open>\<^verbatim>\<open>INSERT OR REPLACE INTO demographics\<close>: the rows that hold the new row's primary
      key are deleted, then the row is inserted.\<close>
  "insert_or_replace r t =
     Inr (filter (\<lambda>old. d_participant_id old \<noteq> d_participant_id r) t @ [r])"

section \<open>The server\<close>

record turn =
  role :: string
  content :: "string option"

type_synonym conversation_store = "string \<rightharpoonup> (string \<rightharpoonup> turn list)"

datatype log_entry = Logged failure | Logged_as string failure

record server =
  conversations :: conversation_store
  participants :: "participant_row list"
  messages :: "message_row list"
  survey_responses :: "survey_row list"
  demographics :: "demographics_row list"
  final_drafts :: "draft_row list"
  console :: "log_entry list"

definition nl :: string where
  "nl = [CHR 0x0A]"

definition system_content :: "string \<Rightarrow> string" where
  "system_content scenario =
     ''You are assisting a multilingual student in drafting academic communication for this scenario: ''
       @ scenario @ ''.'' @ nl
     @ ''Provide tone guidance and revisions only.'' @ nl
     @ ''Do not engage in unrelated conversation.'' @ nl
     @ ''Keep responses concise and focused on clarity, professionalism, and tone improvement.''"

definition system_turn :: "string \<Rightarrow> turn" where
  "system_turn scenario = \<lparr>role = ''system'', content = Some (system_content scenario)\<rparr>"

text \<open>
  \<^verbatim>\<open>conversations\<close> and the objects stored in it are plain objects, and a read
  \<^verbatim>\<open>o[k]\<close> that finds no own property \<^verbatim>\<open>k\<close> goes on to \<^verbatim>\<open>Object.prototype\<close>. The
  store is the own properties: a user id with the object stored for it, a scenario in that
  object with its array. What a read finds beyond them is the runtime's, not the source's.
\<close>

definition object_prototype_names :: "string list" where
  \<comment> \<open>The properties of \<^verbatim>\<open>Object.prototype\<close> in ECMAScript. All hold functions, but
      \<^verbatim>\<open>__proto__\<close>: an accessor that gives, and sets, the prototype of the object read.\<close>
  "object_prototype_names =
     [''constructor'', ''hasOwnProperty'', ''isPrototypeOf'', ''propertyIsEnumerable'',
      ''toLocaleString'', ''toString'', ''valueOf'', ''__defineGetter__'', ''__defineSetter__'',
      ''__lookupGetter__'', ''__lookupSetter__'', ''__proto__'']"

definition proto :: string where
  "proto = ''__proto__''"

definition inherited :: "string \<Rightarrow> bool" where
  "inherited k = (k \<in> set object_prototype_names)"

datatype slot =
  Absent
  \<comment> \<open>\<^verbatim>\<open>undefined\<close>: the guard of /chat initialises the conversation\<close>
| Stored "turn list"
  \<comment> \<open>an array of the store\<close>
| Not_an_array
  \<comment> \<open>a function, a built-in object, a string, a number or \<^verbatim>\<open>null\<close>: a value with no
      \<^verbatim>\<open>push\<close> to call, which line 85 does not replace\<close>
| Outside
  \<comment> \<open>the request reads or writes a built-in object in a way that depends on the runtime,
      or that the store cannot record\<close>

definition read_slot :: "string \<Rightarrow> string \<Rightarrow> conversation_store \<Rightarrow> slot" where
  \<comment> \<open>What lines 177 to 183 get from \<^verbatim>\<open>conversations[userId][scenario]\<close>.
      A stored user: an own array, else what \<^verbatim>\<open>Object.prototype\<close> holds under the
      scenario (a function, or for \<^verbatim>\<open>__proto__\<close> the prototype itself), else nothing.
      No stored user and a user id that is not inherited: nothing, and line 82 stores a
      new object; for the scenario \<^verbatim>\<open>__proto__\<close> line 85 then replaces the prototype of
      that object by the array, which the store cannot record.
      The user id \<^verbatim>\<open>__proto__\<close>: \<^verbatim>\<open>Object.prototype\<close> itself, whose \<^verbatim>\<open>__proto__\<close> is
      \<^verbatim>\<open>null\<close> and cannot be set (line 85 throws); under any other scenario that is
      not inherited line 85 writes the array into \<^verbatim>\<open>Object.prototype\<close>.
      Another inherited user id: a built-in function, with inherited properties, a string
      \<^verbatim>\<open>name\<close> and a number \<^verbatim>\<open>length\<close> that cannot be written; its other properties
      depend on the runtime.\<close>
  "read_slot userId scenario convs =
     (case convs userId of
        Some per_user \<Rightarrow>
          (case per_user scenario of
             Some convo \<Rightarrow> Stored convo
           | None \<Rightarrow> if inherited scenario then Not_an_array else Absent)
      | None \<Rightarrow>
          if \<not> inherited userId then (if scenario = proto then Outside else Absent)
          else if userId = proto
          then (if inherited scenario then Not_an_array else Outside)
          else (if inherited scenario \<or> scenario = ''name'' \<or> scenario = ''length''
                then Not_an_array else Outside))"

definition initializeConversation :: "string \<Rightarrow> string \<Rightarrow> conversation_store \<Rightarrow> conversation_store" where
  \<comment> \<open>What lines 80 to 94 do to the store. Line 81 finds an inherited user id truthy and
      stores no object for it; line 85 then writes to a built-in object, or throws, and the
      store is as before. On a stored object the scenario \<^verbatim>\<open>__proto__\<close> runs the setter:
      no own property is written.\<close>
  "initializeConversation userId scenario convs =
     (let convs1 = (case convs userId of
                      None \<Rightarrow> if inherited userId then convs else convs(userId \<mapsto> Map.empty)
                    | Some _ \<Rightarrow> convs)
      in case convs1 userId of
           None \<Rightarrow> convs1
         | Some per_user \<Rightarrow>
             if scenario = proto \<and> per_user scenario = None then convs1
             else convs1(userId \<mapsto> per_user(scenario \<mapsto> [system_turn scenario])))"

definition lookup :: "string \<Rightarrow> string \<Rightarrow> conversation_store \<Rightarrow> turn list option" where
  \<comment> \<open>the array stored under a key, as own properties; the read of the handler is
      \<open>read_slot\<close>\<close>
  "lookup userId scenario convs =
     (case convs userId of None \<Rightarrow> None | Some per_user \<Rightarrow> per_user scenario)"

definition ensure :: "string \<Rightarrow> string \<Rightarrow> conversation_store \<Rightarrow> conversation_store" where
  \<comment> \<open>What lines 177 to 179 do to the store. An array is truthy and the guard is skipped.
      So it is for a function or a built-in object; where the value is \<^verbatim>\<open>null\<close> or 0 the
      guard holds, but line 85 throws or is ignored, and the store is as before.\<close>
  "ensure userId scenario convs =
     (case read_slot userId scenario convs of
        Absent \<Rightarrow> initializeConversation userId scenario convs
      | Stored convo \<Rightarrow> convs
      | Not_an_array \<Rightarrow> convs
      | Outside \<Rightarrow> initializeConversation userId scenario convs)"

definition push :: "string \<Rightarrow> string \<Rightarrow> turn \<Rightarrow> conversation_store \<Rightarrow> failure + conversation_store" where
  \<comment> \<open>\<^verbatim>\<open>convo.push(t)\<close> for \<^verbatim>\<open>convo = conversations[userId][scenario]\<close>, where the slot
      is not \<open>Outside\<close>: a TypeError when \<^verbatim>\<open>convo\<close> is not an array. After the
      \<^verbatim>\<open>await\<close> the handler holds the array itself; no statement replaces a stored
      array, so it is still the one stored under the key (\<open>reachable_pending_stored\<close>).\<close>
  "push userId scenario t convs =
     (case convs userId of
        None \<Rightarrow> Inl Type_error
      | Some per_user \<Rightarrow>
          (case per_user scenario of
             None \<Rightarrow> Inl Type_error
           | Some convo \<Rightarrow> Inr (convs(userId \<mapsto> per_user(scenario \<mapsto> convo @ [t])))))"

subsection \<open>POST /demographics\<close>

text \<open>
  This handler and the next have no \<^verbatim>\<open>try\<close>: an exception of \<^verbatim>\<open>run\<close> would leave
  them, and the response would be the framework's.
\<close>

definition demographics_row_of :: "demographics_body \<Rightarrow> demographics_row" where
  "demographics_row_of b =
     \<lparr>d_participant_id = dem_participant_id b,
      d_native_language = dem_native_language b,
      d_english_proficiency = dem_english_proficiency b,
      d_years_in_us = dem_years_in_us b,
      d_ai_usage_frequency = dem_ai_usage_frequency b\<rparr>"

definition demographics_handler :: "demographics_body \<Rightarrow> server \<Rightarrow> server \<times> response" where
  "demographics_handler b sv =
     (if falsy (dem_participant_id b)
      then (sv, (400, Error_body ''Missing participant_id''))
      else
        (case insert_or_replace (demographics_row_of b) (demographics sv) of
           Inl e \<Rightarrow> (sv, (500, Uncaught e))
         | Inr t \<Rightarrow> (sv\<lparr>demographics := t\<rparr>, (200, Status_body ''saved''))))"

subsection \<open>POST /survey-response\<close>

definition survey_row_of :: "survey_body \<Rightarrow> instant \<Rightarrow> survey_row" where
  "survey_row_of b now =
     \<lparr>s_participant_id = sur_participant_id b,
      s_scenario = sur_scenario b,
      s_draft_text = sur_draft_text b,
      s_used_ai_self_report = sur_used_ai_self_report b,
      s_used_ai_behavioral = (if truthy (sur_used_ai_behavioral b) then 1 else 0),
      s_perceived_risk = sur_perceived_risk b,
      s_authenticity = sur_authenticity b,
      s_timestamp = now\<rparr>"

definition survey_response_handler :: "survey_body \<Rightarrow> instant \<Rightarrow> server \<Rightarrow> server \<times> response" where
  "survey_response_handler b now sv =
     (if falsy (sur_participant_id b) \<or> falsy (sur_scenario b)
      then (sv, (400, Error_body ''Missing required fields''))
      else
        (case insert_row (survey_row_of b now) (survey_responses sv) of
           Inl e \<Rightarrow> (sv, (500, Uncaught e))
         | Inr t \<Rightarrow> (sv\<lparr>survey_responses := t\<rparr>, (200, Status_body ''saved''))))"

subsection \<open>POST /save-draft\<close>

definition draft_row_of :: "draft_body \<Rightarrow> instant \<Rightarrow> draft_row" where
  "draft_row_of b now =
     \<lparr>f_participant_id = sav_participant_id b,
      f_scenario = sav_scenario b,
      f_draft_text = sav_draft_text b,
      f_timestamp = now\<rparr>"

definition save_draft_handler :: "draft_body \<Rightarrow> instant \<Rightarrow> server \<Rightarrow> server \<times> response" where
  "save_draft_handler b now sv =
     (if falsy (sav_participant_id b) \<or> falsy (sav_scenario b) \<or> falsy (sav_draft_text b)
      then (sv, (400, Error_body ''Missing required fields''))
      else
        (case insert_row (draft_row_of b now) (final_drafts sv) of
           Inl e \<Rightarrow>
             (sv\<lparr>console := console sv @ [Logged_as ''Draft save error:'' e]\<rparr>,
              (500, Error_body ''Failed to save draft''))
         | Inr t \<Rightarrow> (sv\<lparr>final_drafts := t\<rparr>, (200, Status_body ''saved''))))"

subsection \<open>POST /chat\<close>

text \<open>
  The handler is asynchronous. \<open>chat_begin\<close> is what runs until the \<^verbatim>\<open>await\<close> of
  \<^verbatim>\<open>fetch\<close>: validation, the guard, the push of the user turn and the request sent to
  the gateway. These lines are outside the \<^verbatim>\<open>try\<close>: an exception there leaves the
  handler. \<open>chat_finish\<close> is what runs once the gateway has answered, or failed.
  Other requests may be served between the two. \<open>chat_handler\<close> runs both with nothing in
  between.
\<close>

record gateway_request =
  model :: string
  sent_messages :: "turn list"
  stream :: bool

datatype gateway_result =
  Fetch_rejects string
| Json_rejects string
| Data "string option option"
  \<comment> \<open>the parsed body \<^verbatim>\<open>data\<close>: \<open>None\<close> when \<^verbatim>\<open>data.message\<close> is \<^verbatim>\<open>undefined\<close> or
      \<^verbatim>\<open>null\<close> (or \<^verbatim>\<open>data\<close> itself is), so that reading \<^verbatim>\<open>content\<close> throws; else
      \<^verbatim>\<open>data.message.content\<close>, \<open>None\<close> when \<^verbatim>\<open>data.message\<close> has none, be it an
      object, a string or a number\<close>

record gateway_return =
  result :: gateway_result
  returned_at :: instant

record pending_chat =
  pending_body :: chat_body
  pending_request :: gateway_request

datatype started =
  Rejected response
| Awaiting pending_chat
| Threw failure
  \<comment> \<open>an exception before the \<^verbatim>\<open>try\<close>: the handler answers nothing and sends nothing
      to the gateway; what the framework and the runtime do with the rejected promise is
      not the source's\<close>
| Beyond
  \<comment> \<open>the slot of the key is \<open>Outside\<close>\<close>

definition user_turn_content :: "string option \<Rightarrow> string option \<Rightarrow> string" where
  "user_turn_content draft message =
     ''Draft:'' @ nl @ js_string draft @ nl @ nl @ ''User request:'' @ nl @ js_string message"

definition user_row_content :: "string option \<Rightarrow> string option \<Rightarrow> string" where
  "user_row_content draft message =
     ''Draft:'' @ nl @ js_string draft @ nl @ ''Request:'' @ nl @ js_string message"

definition user_turn :: "chat_body \<Rightarrow> turn" where
  "user_turn b =
     \<lparr>role = ''user'', content = Some (user_turn_content (chat_draft b) (chat_message b))\<rparr>"

definition assistant_turn :: "string option \<Rightarrow> turn" where
  "assistant_turn botReply = \<lparr>role = ''assistant'', content = botReply\<rparr>"

definition user_row :: "chat_body \<Rightarrow> instant \<Rightarrow> message_row" where
  "user_row b timestamp =
     \<lparr>m_participant_id = chat_userId b, m_scenario = chat_scenario b, m_role = ''user'',
      m_content = Some (user_row_content (chat_draft b) (chat_message b)),
      m_timestamp = timestamp\<rparr>"

definition assistant_row :: "chat_body \<Rightarrow> string option \<Rightarrow> instant \<Rightarrow> message_row" where
  "assistant_row b botReply timestamp =
     \<lparr>m_participant_id = chat_userId b, m_scenario = chat_scenario b, m_role = ''assistant'',
      m_content = botReply, m_timestamp = timestamp\<rparr>"

definition chat_begin :: "chat_body \<Rightarrow> server \<Rightarrow> server \<times> started" where
  "chat_begin b sv =
     (if falsy (chat_userId b) \<or> falsy (chat_message b) \<or> falsy (chat_scenario b)
      then (sv, Rejected (400, Error_body ''Missing userId, message, or scenario''))
      else
        (let userId = js_string (chat_userId b);
             scenario = js_string (chat_scenario b)
         in if read_slot userId scenario (conversations sv) = Outside then (sv, Beyond)
            else
              (let convs1 = ensure userId scenario (conversations sv)
               in case push userId scenario (user_turn b) convs1 of
                    Inl err \<Rightarrow> (sv\<lparr>conversations := convs1\<rparr>, Threw err)
                  | Inr convs2 \<Rightarrow>
                      (sv\<lparr>conversations := convs2\<rparr>,
                       Awaiting
                         \<lparr>pending_body = b,
                          pending_request =
                            \<lparr>model = ''llama3'',
                             sent_messages = (case lookup userId scenario convs2 of
                                                None \<Rightarrow> [] | Some convo \<Rightarrow> convo),
                             stream = False\<rparr>\<rparr>))))"

definition bot_reply :: "gateway_result \<Rightarrow> failure + string option" where
  \<comment> \<open>Lines 189 to 200: \<^verbatim>\<open>fetch\<close>, \<^verbatim>\<open>response.json()\<close> and \<^verbatim>\<open>data.message.content\<close>,
      each of which may throw. A \<^verbatim>\<open>message\<close> object without \<^verbatim>\<open>content\<close> does not.\<close>
  "bot_reply r =
     (case r of
        Fetch_rejects e \<Rightarrow> Inl (Fetch_error e)
      | Json_rejects e \<Rightarrow> Inl (Json_error e)
      | Data None \<Rightarrow> Inl Type_error
      | Data (Some c) \<Rightarrow> Inr c)"

definition chat_failed :: "failure \<Rightarrow> server \<Rightarrow> server \<times> response" where
  \<comment> \<open>the \<^verbatim>\<open>catch\<close> of the handler\<close>
  "chat_failed err sv =
     (sv\<lparr>console := console sv @ [Logged err]\<rparr>, (500, Error_body ''Chat failed''))"

definition chat_finish :: "pending_chat \<Rightarrow> gateway_return \<Rightarrow> server \<Rightarrow> server \<times> response" where
  "chat_finish p g sv =
     (let b = pending_body p;
          userId = js_string (chat_userId b);
          scenario = js_string (chat_scenario b)
      in case bot_reply (result g) of
           Inl err \<Rightarrow> chat_failed err sv
         | Inr botReply \<Rightarrow>
             (case push userId scenario (assistant_turn botReply) (conversations sv) of
                Inl err \<Rightarrow> chat_failed err sv
              | Inr convs1 \<Rightarrow>
                  (let sv1 = sv\<lparr>conversations := convs1\<rparr>;
                       timestamp = returned_at g
                   in case insert_row (user_row b timestamp) (messages sv1) of
                        Inl err \<Rightarrow> chat_failed err sv1
                      | Inr t1 \<Rightarrow>
                          (case insert_row (assistant_row b botReply timestamp) t1 of
                             Inl err \<Rightarrow> chat_failed err (sv1\<lparr>messages := t1\<rparr>)
                           | Inr t2 \<Rightarrow> (sv1\<lparr>messages := t2\<rparr>, (200, Reply_body botReply))))))"

definition chat_handler ::
  "chat_body \<Rightarrow> (gateway_request \<Rightarrow> gateway_return) \<Rightarrow> server \<Rightarrow> server \<times> response" where
  \<comment> \<open>For a request that is \<open>Beyond\<close> the result says nothing of the code: it is
      marked \<open>Not_modelled\<close>, and the theorems leave such requests out.\<close>
  "chat_handler b gateway sv =
     (case chat_begin b sv of
        (sv1, Rejected r) \<Rightarrow> (sv1, r)
      | (sv1, Awaiting p) \<Rightarrow> chat_finish p (gateway (pending_request p)) sv1
      | (sv1, Threw err) \<Rightarrow> (sv1, (500, Uncaught err))
      | (sv1, Beyond) \<Rightarrow> (sv1, (0, Not_modelled)))"

section \<open>Runs of the server\<close>

definition fresh_server :: server where
  \<comment> \<open>a new database file and \<^verbatim>\<open>let conversations = {}\<close>\<close>
  "fresh_server =
     \<lparr>conversations = Map.empty, participants = [], messages = [], survey_responses = [],
      demographics = [], final_drafts = [], console = []\<rparr>"

text \<open>
  A configuration is the server with the chat requests that wait for the gateway. The
  process starts with no conversation and whatever the database file holds. The two
  \<^verbatim>\<open>GET\<close> routes change nothing and are left out. A run ends where a chat request is
  \<open>Beyond\<close>: what the built-in objects hold from then on is not in the store.
\<close>

inductive reachable :: "server \<times> pending_chat list \<Rightarrow> bool" where
  boot: "conversations sv = Map.empty \<Longrightarrow> reachable (sv, [])"
| post_demographics:
    "reachable (sv, ps) \<Longrightarrow> reachable (fst (demographics_handler b sv), ps)"
| post_survey_response:
    "reachable (sv, ps) \<Longrightarrow> reachable (fst (survey_response_handler b now sv), ps)"
| post_save_draft:
    "reachable (sv, ps) \<Longrightarrow> reachable (fst (save_draft_handler b now sv), ps)"
| post_chat_rejected:
    "reachable (sv, ps) \<Longrightarrow> chat_begin b sv = (sv', Rejected r) \<Longrightarrow> reachable (sv', ps)"
| post_chat_threw:
    "reachable (sv, ps) \<Longrightarrow> chat_begin b sv = (sv', Threw err) \<Longrightarrow> reachable (sv', ps)"
| post_chat_sent:
    "reachable (sv, ps) \<Longrightarrow> chat_begin b sv = (sv', Awaiting p) \<Longrightarrow> reachable (sv', p # ps)"
| gateway_returned:
    "reachable (sv, ps) \<Longrightarrow> p \<in> set ps \<Longrightarrow>
       reachable (fst (chat_finish p g sv), remove1 p ps)"

definition ensured :: "string \<Rightarrow> string \<Rightarrow> conversation_store \<Rightarrow> turn list" where
  \<comment> \<open>the conversation of a key once the guard of /chat has run\<close>
  "ensured userId scenario convs =
     (case lookup userId scenario convs of
        None \<Rightarrow> [system_turn scenario]
      | Some convo \<Rightarrow> convo)"

definition sent :: "chat_body \<Rightarrow> server \<Rightarrow> gateway_request" where
  \<comment> \<open>the body of the request that \<^verbatim>\<open>fetch\<close> posts for a valid chat request\<close>
  "sent b sv =
     \<lparr>model = ''llama3'',
      sent_messages =
        ensured (js_string (chat_userId b)) (js_string (chat_scenario b)) (conversations sv)
          @ [user_turn b],
      stream = False\<rparr>"

definition run_demographics :: "demographics_body list \<Rightarrow> server \<Rightarrow> server" where
  "run_demographics bs sv = fold (\<lambda>b s. fst (demographics_handler b s)) bs sv"

section \<open>Example requests\<close>

definition example_demographics :: demographics_body where
  "example_demographics =
     \<lparr>dem_participant_id = Some ''p1'', dem_native_language = Some ''es'',
      dem_english_proficiency = Some 4, dem_years_in_us = Some 2,
      dem_ai_usage_frequency = Some 3\<rparr>"

definition example_survey :: survey_body where
  "example_survey =
     \<lparr>sur_participant_id = Some ''p1'', sur_scenario = Some ''email_to_professor'',
      sur_draft_text = Some ''Dear Professor'', sur_used_ai_self_report = Some ''yes'',
      sur_used_ai_behavioral = JBool True, sur_perceived_risk = Some 2,
      sur_authenticity = Some 5\<rparr>"

definition example_draft :: draft_body where
  "example_draft =
     \<lparr>sav_participant_id = Some ''p1'', sav_scenario = Some ''email_to_professor'',
      sav_draft_text = Some ''Dear Professor''\<rparr>"

definition example_chat :: chat_body where
  "example_chat =
     \<lparr>chat_userId = Some ''p1'', chat_message = Some ''make this more formal'',
      chat_scenario = Some ''email_to_professor'',
      chat_draft = Some ''hey can i get extension''\<rparr>"

definition replying_gateway :: "gateway_request \<Rightarrow> gateway_return" where
  "replying_gateway req =
     \<lparr>result = Data (Some (Some ''Certainly...'')), returned_at = 1000\<rparr>"

definition refusing_gateway :: "gateway_request \<Rightarrow> gateway_return" where
  "refusing_gateway req =
     \<lparr>result = Fetch_rejects ''connect ECONNREFUSED 127.0.0.1:11434'', returned_at = 1000\<rparr>"



section \<open>The conversation store\<close>

lemma inherited_proto: "inherited proto"
  by (simp add: inherited_def object_prototype_names_def proto_def)

lemma read_slot_user:
  "convs u = Some per_user \<Longrightarrow>
   read_slot u s convs =
     (case per_user s of
        Some convo \<Rightarrow> Stored convo
      | None \<Rightarrow> if inherited s then Not_an_array else Absent)"
  by (simp add: read_slot_def)

lemma read_slot_no_user: "convs u = None \<Longrightarrow> read_slot u s convs \<noteq> Stored convo"
  by (simp add: read_slot_def)

lemma read_slot_Stored: "read_slot u s convs = Stored convo \<longleftrightarrow> lookup u s convs = Some convo"
proof (cases "convs u")
  case None
  then show ?thesis by (simp add: read_slot_no_user lookup_def)
next
  case (Some per_user)
  then show ?thesis by (simp add: read_slot_user lookup_def split: option.splits)
qed

lemma read_slot_not_Stored:
  assumes "read_slot u s convs = Absent \<or> read_slot u s convs = Not_an_array
           \<or> read_slot u s convs = Outside"
  shows "lookup u s convs = None"
proof (cases "lookup u s convs")
  case (Some convo)
  then have "read_slot u s convs = Stored convo"
    by (simp add: read_slot_Stored)
  with assms show ?thesis by simp
qed simp

lemma read_slot_cases:
  obtains (absent) "read_slot u s convs = Absent" "lookup u s convs = None"
  | (stored) convo where "read_slot u s convs = Stored convo" "lookup u s convs = Some convo"
  | (not_an_array) "read_slot u s convs = Not_an_array" "lookup u s convs = None"
  | (outside) "read_slot u s convs = Outside" "lookup u s convs = None"
proof (cases "read_slot u s convs")
  case Absent
  then show ?thesis by (intro absent) (simp_all add: read_slot_not_Stored)
next
  case (Stored convo)
  then show ?thesis by (intro stored[of convo]) (simp_all add: read_slot_Stored)
next
  case Not_an_array
  then show ?thesis by (intro not_an_array) (simp_all add: read_slot_not_Stored)
next
  case Outside
  then show ?thesis by (intro outside) (simp_all add: read_slot_not_Stored)
qed

lemma ensure_Absent:
  assumes "read_slot u s convs = Absent"
  shows "ensure u s convs =
           convs(u \<mapsto> (case convs u of None \<Rightarrow> Map.empty | Some per_user \<Rightarrow> per_user)
                          (s \<mapsto> [system_turn s]))"
proof (cases "convs u")
  case None
  with assms have "\<not> inherited u" "s \<noteq> proto"
    by (simp_all add: read_slot_def split: if_splits)
  with None assms show ?thesis
    by (simp add: ensure_def initializeConversation_def)
next
  case (Some per_user)
  with assms have "per_user s = None" "\<not> inherited s"
    by (simp_all add: read_slot_user split: option.splits if_splits)
  moreover from this have "s \<noteq> proto"
    using inherited_proto by auto
  ultimately show ?thesis
    using Some assms by (simp add: ensure_def initializeConversation_def)
qed

lemma ensure_Outside:
  assumes "read_slot u s convs = Outside"
  shows "convs u = None"
    and "ensure u s convs = (if inherited u then convs else convs(u \<mapsto> Map.empty))"
    and "\<not> inherited u \<Longrightarrow> s = proto"
proof -
  show none: "convs u = None"
  proof (cases "convs u")
    case (Some per_user)
    with assms show ?thesis
      by (simp add: read_slot_user split: option.splits if_splits)
  qed simp
  show proto: "s = proto" if "\<not> inherited u"
    using assms none that by (simp add: read_slot_def split: if_splits)
  show "ensure u s convs = (if inherited u then convs else convs(u \<mapsto> Map.empty))"
    using assms none proto by (simp add: ensure_def initializeConversation_def)
qed

lemma ensure_other:
  "read_slot u s convs = Stored convo \<or> read_slot u s convs = Not_an_array \<Longrightarrow>
   ensure u s convs = convs"
  by (auto simp: ensure_def)

lemma lookup_ensure:
  "lookup u' s' (ensure u s convs) =
     (if u' = u \<and> s' = s \<and> read_slot u s convs = Absent then Some [system_turn s]
      else lookup u' s' convs)"
proof (cases "read_slot u s convs")
  case Absent
  then show ?thesis
    by (simp add: ensure_Absent lookup_def split: option.splits)
next
  case (Stored convo)
  then show ?thesis by (simp add: ensure_other)
next
  case Not_an_array
  then show ?thesis by (simp add: ensure_other)
next
  case Outside
  then show ?thesis
    using ensure_Outside(1,2)[OF Outside] by (simp add: lookup_def)
qed

lemma lookup_ensured:
  assumes "read_slot u s convs \<noteq> Not_an_array" "read_slot u s convs \<noteq> Outside"
  shows "lookup u s (ensure u s convs) = Some (ensured u s convs)"
  using assms by (cases u s convs rule: read_slot_cases) (simp_all add: lookup_ensure ensured_def)

lemma ensure_stored: "lookup u s convs = Some convo \<Longrightarrow> ensure u s convs = convs"
  using read_slot_Stored[of u s convs convo] by (simp add: ensure_other)

lemma ensured_stored: "lookup u s convs = Some convo \<Longrightarrow> ensured u s convs = convo"
  by (simp add: ensured_def)

lemma ensure_ensure: "ensure u s (ensure u s convs) = ensure u s convs"
proof (cases "read_slot u s convs")
  case Absent
  then have "lookup u s (ensure u s convs) = Some [system_turn s]"
    by (simp add: lookup_ensure)
  then show ?thesis by (rule ensure_stored)
next
  case (Stored convo)
  then show ?thesis by (simp add: ensure_other)
next
  case Not_an_array
  then show ?thesis by (simp add: ensure_other)
next
  case Outside
  show ?thesis
  proof (cases "inherited u")
    case True
    then show ?thesis using ensure_Outside(2)[OF Outside] by simp
  next
    case False
    then have e: "ensure u s convs = convs(u \<mapsto> Map.empty)" and s: "s = proto"
      using ensure_Outside(2,3)[OF Outside] by simp_all
    have "read_slot u s (convs(u \<mapsto> Map.empty)) = Not_an_array"
      using inherited_proto by (simp add: read_slot_user[of _ _ Map.empty] s)
    then show ?thesis
      by (simp add: e ensure_other)
  qed
qed

lemma push_stored:
  assumes "lookup u s convs = Some convo"
  shows "\<exists>per_user. convs u = Some per_user
           \<and> push u s t convs = Inr (convs(u \<mapsto> per_user(s \<mapsto> convo @ [t])))"
  using assms by (cases "convs u") (simp_all add: push_def lookup_def)

lemma push_not_stored: "lookup u s convs = None \<Longrightarrow> push u s t convs = Inl Type_error"
  by (cases "convs u") (simp_all add: push_def lookup_def)

lemma lookup_push:
  assumes "push u s t convs = Inr convs'"
  shows "lookup u' s' convs' =
     (if u' = u \<and> s' = s then map_option (\<lambda>convo. convo @ [t]) (lookup u s convs)
      else lookup u' s' convs)"
proof (cases "lookup u s convs")
  case None
  with assms show ?thesis by (simp add: push_not_stored)
next
  case (Some convo)
  from push_stored[OF Some, of t] assms obtain per_user
    where "convs u = Some per_user" "convs' = convs(u \<mapsto> per_user(s \<mapsto> convo @ [t]))"
    by auto
  with Some show ?thesis
    by (simp add: lookup_def)
qed

section \<open>The chat handler, step by step\<close>

lemma chat_begin_rejected:
  "falsy (chat_userId b) \<or> falsy (chat_message b) \<or> falsy (chat_scenario b) \<Longrightarrow>
   chat_begin b sv = (sv, Rejected (400, Error_body ''Missing userId, message, or scenario''))"
  by (simp add: chat_begin_def)

lemma chat_begin_beyond:
  assumes "\<not> falsy (chat_userId b)" "\<not> falsy (chat_message b)" "\<not> falsy (chat_scenario b)"
    and "read_slot (js_string (chat_userId b)) (js_string (chat_scenario b)) (conversations sv) = Outside"
  shows "chat_begin b sv = (sv, Beyond)"
  using assms by (simp add: chat_begin_def)

lemma chat_begin_threw:
  assumes "\<not> falsy (chat_userId b)" "\<not> falsy (chat_message b)" "\<not> falsy (chat_scenario b)"
    and "read_slot (js_string (chat_userId b)) (js_string (chat_scenario b)) (conversations sv) =
           Not_an_array"
  shows "chat_begin b sv = (sv, Threw Type_error)"
proof -
  let ?u = "js_string (chat_userId b)" and ?s = "js_string (chat_scenario b)"
  have "ensure ?u ?s (conversations sv) = conversations sv"
    using assms(4) by (simp add: ensure_other)
  moreover have "push ?u ?s (user_turn b) (conversations sv) = Inl Type_error"
    using assms(4) by (intro push_not_stored read_slot_not_Stored) simp
  ultimately show ?thesis
    using assms by (simp add: chat_begin_def)
qed

lemma chat_begin_sent:
  assumes "\<not> falsy (chat_userId b)" "\<not> falsy (chat_message b)" "\<not> falsy (chat_scenario b)"
    and "read_slot (js_string (chat_userId b)) (js_string (chat_scenario b)) (conversations sv) \<noteq>
           Not_an_array"
    and "read_slot (js_string (chat_userId b)) (js_string (chat_scenario b)) (conversations sv) \<noteq>
           Outside"
  shows "\<exists>convs2.
    chat_begin b sv =
       (sv\<lparr>conversations := convs2\<rparr>, Awaiting \<lparr>pending_body = b, pending_request = sent b sv\<rparr>)
    \<and> (\<forall>u s. lookup u s convs2 =
           (if u = js_string (chat_userId b) \<and> s = js_string (chat_scenario b)
            then Some (ensured u s (conversations sv) @ [user_turn b])
            else lookup u s (conversations sv)))"
proof -
  let ?u = "js_string (chat_userId b)" and ?s = "js_string (chat_scenario b)"
  let ?convs1 = "ensure ?u ?s (conversations sv)"
  have l1: "lookup ?u ?s ?convs1 = Some (ensured ?u ?s (conversations sv))"
    using assms(4,5) by (rule lookup_ensured)
  from push_stored[OF l1, of "user_turn b"] obtain convs2
    where p: "push ?u ?s (user_turn b) ?convs1 = Inr convs2"
    by auto
  have l2: "lookup u s convs2 =
           (if u = ?u \<and> s = ?s then Some (ensured u s (conversations sv) @ [user_turn b])
            else lookup u s (conversations sv))" for u s
  proof (cases "u = ?u \<and> s = ?s")
    case True
    then show ?thesis by (simp add: lookup_push[OF p] l1)
  next
    case False
    then have "lookup u s ?convs1 = lookup u s (conversations sv)"
      by (auto simp: lookup_ensure)
    with False show ?thesis by (auto simp: lookup_push[OF p])
  qed
  have "chat_begin b sv =
       (sv\<lparr>conversations := convs2\<rparr>, Awaiting \<lparr>pending_body = b, pending_request = sent b sv\<rparr>)"
    using assms p by (simp add: chat_begin_def sent_def l2)
  with l2 show ?thesis by blast
qed

lemma chat_begin_cases:
  obtains (rejected) "falsy (chat_userId b) \<or> falsy (chat_message b) \<or> falsy (chat_scenario b)"
      "chat_begin b sv = (sv, Rejected (400, Error_body ''Missing userId, message, or scenario''))"
  | (beyond) "chat_begin b sv = (sv, Beyond)"
  | (threw) "chat_begin b sv = (sv, Threw Type_error)"
  | (sent) convs2 where
      "\<not> falsy (chat_userId b)" "\<not> falsy (chat_message b)" "\<not> falsy (chat_scenario b)"
      "chat_begin b sv =
         (sv\<lparr>conversations := convs2\<rparr>, Awaiting \<lparr>pending_body = b, pending_request = sent b sv\<rparr>)"
      "\<And>u s. lookup u s convs2 =
           (if u = js_string (chat_userId b) \<and> s = js_string (chat_scenario b)
            then Some (ensured u s (conversations sv) @ [user_turn b])
            else lookup u s (conversations sv))"
proof (cases "falsy (chat_userId b) \<or> falsy (chat_message b) \<or> falsy (chat_scenario b)")
  case True
  then show ?thesis by (intro rejected chat_begin_rejected)
next
  case False
  then have v: "\<not> falsy (chat_userId b)" "\<not> falsy (chat_message b)" "\<not> falsy (chat_scenario b)"
    by simp_all
  show ?thesis
  proof (cases "read_slot (js_string (chat_userId b)) (js_string (chat_scenario b)) (conversations sv)")
    case Absent
    with chat_begin_sent[OF v, of sv] obtain convs2 where
      "chat_begin b sv =
         (sv\<lparr>conversations := convs2\<rparr>, Awaiting \<lparr>pending_body = b, pending_request = sent b sv\<rparr>)"
      "\<And>u s. lookup u s convs2 =
           (if u = js_string (chat_userId b) \<and> s = js_string (chat_scenario b)
            then Some (ensured u s (conversations sv) @ [user_turn b])
            else lookup u s (conversations sv))"
      by auto
    then show ?thesis by (rule sent[OF v])
  next
    case (Stored convo)
    with chat_begin_sent[OF v, of sv] obtain convs2 where
      "chat_begin b sv =
         (sv\<lparr>conversations := convs2\<rparr>, Awaiting \<lparr>pending_body = b, pending_request = sent b sv\<rparr>)"
      "\<And>u s. lookup u s convs2 =
           (if u = js_string (chat_userId b) \<and> s = js_string (chat_scenario b)
            then Some (ensured u s (conversations sv) @ [user_turn b])
            else lookup u s (conversations sv))"
      by auto
    then show ?thesis by (rule sent[OF v])
  next
    case Not_an_array
    then show ?thesis by (intro threw chat_begin_threw v)
  next
    case Outside
    then show ?thesis by (intro beyond chat_begin_beyond v)
  qed
qed

lemma lookup_chat_begin:
  "lookup u s (conversations (fst (chat_begin b sv))) = lookup u s (conversations sv)
   \<or> lookup u s (conversations (fst (chat_begin b sv))) =
       Some (ensured u s (conversations sv) @ [user_turn b])"
  by (cases b sv rule: chat_begin_cases) auto

lemma chat_finish_thrown:
  assumes "bot_reply (result g) = Inl err"
  shows "chat_finish p g sv =
     (sv\<lparr>console := console sv @ [Logged err]\<rparr>, (500, Error_body ''Chat failed''))"
  using assms by (simp add: chat_finish_def chat_failed_def Let_def)

lemma chat_finish_reply:
  assumes "bot_reply (result g) = Inr botReply"
    and "push (js_string (chat_userId (pending_body p))) (js_string (chat_scenario (pending_body p)))
           (assistant_turn botReply) (conversations sv) = Inr convs1"
  shows "chat_finish p g sv =
     (sv\<lparr>conversations := convs1,
         messages := messages sv @
           [user_row (pending_body p) (returned_at g),
            assistant_row (pending_body p) botReply (returned_at g)]\<rparr>,
      (200, Reply_body botReply))"
  using assms by (simp add: chat_finish_def Let_def insert_row_def)

lemma lookup_chat_finish:
  "lookup u s (conversations (fst (chat_finish p g sv))) =
     (case bot_reply (result g) of
        Inl err \<Rightarrow> lookup u s (conversations sv)
      | Inr botReply \<Rightarrow>
          if u = js_string (chat_userId (pending_body p)) \<and> s = js_string (chat_scenario (pending_body p))
          then map_option (\<lambda>convo. convo @ [assistant_turn botReply]) (lookup u s (conversations sv))
          else lookup u s (conversations sv))"
proof (cases "bot_reply (result g)")
  case (Inl err)
  then show ?thesis by (simp add: chat_finish_thrown)
next
  case (Inr botReply)
  let ?u = "js_string (chat_userId (pending_body p))"
  let ?s = "js_string (chat_scenario (pending_body p))"
  show ?thesis
  proof (cases "push ?u ?s (assistant_turn botReply) (conversations sv)")
    case (Inl err)
    then have "lookup ?u ?s (conversations sv) = None"
      using push_stored[of ?u ?s "conversations sv" _ "assistant_turn botReply"]
      by (cases "lookup ?u ?s (conversations sv)") auto
    with Inl Inr show ?thesis
      by (auto simp: chat_finish_def chat_failed_def)
  next
    case (Inr convs1)
    with \<open>bot_reply (result g) = Inr botReply\<close> show ?thesis
      by (simp add: chat_finish_reply lookup_push[OF Inr])
  qed
qed

lemma chat_handler_sent:
  assumes "chat_begin b sv = (sv1, Awaiting \<lparr>pending_body = b, pending_request = sent b sv\<rparr>)"
  shows "chat_handler b gateway sv =
     chat_finish \<lparr>pending_body = b, pending_request = sent b sv\<rparr> (gateway (sent b sv)) sv1"
  using assms by (simp add: chat_handler_def)

lemma chat_handler_conversation:
  assumes "\<not> falsy (chat_userId b)" "\<not> falsy (chat_message b)" "\<not> falsy (chat_scenario b)"
    and "read_slot (js_string (chat_userId b)) (js_string (chat_scenario b)) (conversations sv) \<noteq>
           Not_an_array"
    and "read_slot (js_string (chat_userId b)) (js_string (chat_scenario b)) (conversations sv) \<noteq>
           Outside"
  shows "lookup u s (conversations (fst (chat_handler b gateway sv))) =
     (if u = js_string (chat_userId b) \<and> s = js_string (chat_scenario b)
      then Some (ensured u s (conversations sv) @ user_turn b #
             (case bot_reply (result (gateway (sent b sv))) of
                Inl err \<Rightarrow> [] | Inr botReply \<Rightarrow> [assistant_turn botReply]))
      else lookup u s (conversations sv))"
proof -
  from chat_begin_sent[OF assms] obtain convs2 where
    b: "chat_begin b sv =
       (sv\<lparr>conversations := convs2\<rparr>, Awaiting \<lparr>pending_body = b, pending_request = sent b sv\<rparr>)"
    and l: "\<And>u s. lookup u s convs2 =
           (if u = js_string (chat_userId b) \<and> s = js_string (chat_scenario b)
            then Some (ensured u s (conversations sv) @ [user_turn b])
            else lookup u s (conversations sv))"
    by auto
  show ?thesis
    by (cases "bot_reply (result (gateway (sent b sv)))")
      (simp_all add: chat_handler_sent[OF b] lookup_chat_finish l)
qed





section \<open>The example requests\<close>

lemma fresh_server_tables:
  "participants fresh_server = []" "messages fresh_server = []"
  "survey_responses fresh_server = []" "demographics fresh_server = []"
  "final_drafts fresh_server = []" "console fresh_server = []"
  by (simp_all add: fresh_server_def)

lemma lookup_fresh_server: "lookup u s (conversations fresh_server) = None"
  by (simp add: fresh_server_def lookup_def)

lemma example_chat_valid:
  "\<not> falsy (chat_userId example_chat)" "\<not> falsy (chat_message example_chat)"
  "\<not> falsy (chat_scenario example_chat)"
  by (simp_all add: example_chat_def falsy_def)

lemma example_chat_key:
  "js_string (chat_userId example_chat) = ''p1''"
  "js_string (chat_scenario example_chat) = ''email_to_professor''"
  by (simp_all add: example_chat_def js_string_def)

lemma example_names:
  "\<not> inherited ''p1''" "\<not> inherited ''email_to_professor''" "inherited ''toString''"
  "inherited ''constructor''" "''constructor'' \<noteq> proto" "''email_to_professor'' \<noteq> proto"
  by (simp_all add: inherited_def object_prototype_names_def proto_def)

lemma read_slot_example:
  "lookup ''p1'' ''email_to_professor'' convs = None \<Longrightarrow>
   read_slot ''p1'' ''email_to_professor'' convs = Absent"
  using example_names by (cases "convs ''p1''") (simp_all add: read_slot_def lookup_def)

lemma read_slot_example_ok:
  "read_slot ''p1'' ''email_to_professor'' convs \<noteq> Not_an_array"
  "read_slot ''p1'' ''email_to_professor'' convs \<noteq> Outside"
proof -
  have "read_slot ''p1'' ''email_to_professor'' convs = Absent
      \<or> (\<exists>convo. read_slot ''p1'' ''email_to_professor'' convs = Stored convo)"
    using read_slot_example[of convs] read_slot_Stored[of "''p1''" "''email_to_professor''" convs]
    by (cases "lookup ''p1'' ''email_to_professor'' convs") simp_all
  then show "read_slot ''p1'' ''email_to_professor'' convs \<noteq> Not_an_array"
    and "read_slot ''p1'' ''email_to_professor'' convs \<noteq> Outside"
    by auto
qed



lemma example_refused:
  "lookup ''p1'' ''email_to_professor''
     (conversations (fst (chat_handler example_chat refusing_gateway fresh_server))) =
   Some [system_turn ''email_to_professor'', user_turn example_chat]"
  using chat_handler_conversation[of example_chat fresh_server "''p1''" "''email_to_professor''"
      refusing_gateway] example_chat_valid read_slot_example_ok
  by (simp add: example_chat_key ensured_def lookup_fresh_server refusing_gateway_def bot_reply_def)


section \<open>A chat exchange that succeeds\<close>




section \<open>Reachable configurations\<close>

lemma conversations_demographics_handler:
  "conversations (fst (demographics_handler b sv)) = conversations sv"
  by (simp add: demographics_handler_def insert_or_replace_def)

lemma conversations_survey_response_handler:
  "conversations (fst (survey_response_handler b now sv)) = conversations sv"
  by (simp add: survey_response_handler_def insert_row_def)

lemma conversations_save_draft_handler:
  "conversations (fst (save_draft_handler b now sv)) = conversations sv"
  by (simp add: save_draft_handler_def insert_row_def)




lemma reachable_pending_stored:
  "reachable c \<Longrightarrow> p \<in> set (snd c) \<Longrightarrow>
   lookup (js_string (chat_userId (pending_body p))) (js_string (chat_scenario (pending_body p)))
     (conversations (fst c)) \<noteq> None"
proof (induction arbitrary: p rule: reachable.induct)
  case (boot sv)
  then show ?case by simp
next
  case (post_demographics sv ps b)
  then show ?case by (simp add: conversations_demographics_handler)
next
  case (post_survey_response sv ps b now)
  then show ?case by (simp add: conversations_survey_response_handler)
next
  case (post_save_draft sv ps b now)
  then show ?case by (simp add: conversations_save_draft_handler)
next
  case (post_chat_rejected sv ps b sv' r)
  then show ?case by (cases b sv rule: chat_begin_cases) auto
next
  case (post_chat_threw sv ps b sv' err)
  then show ?case by (cases b sv rule: chat_begin_cases) auto
next
  case (post_chat_sent sv ps b sv' q)
  have sv': "sv' = fst (chat_begin b sv)"
    using post_chat_sent.hyps(2) by simp
  show ?case
  proof (cases "p = q")
    case True
    with post_chat_sent.hyps(2) show ?thesis
      by (cases b sv rule: chat_begin_cases) auto
  next
    case False
    with post_chat_sent.prems have "p \<in> set ps" by simp
    then show ?thesis
      using post_chat_sent.IH[of p]
        lookup_chat_begin[of "js_string (chat_userId (pending_body p))"
          "js_string (chat_scenario (pending_body p))" b sv]
      by (auto simp: sv')
  qed
next
  case (gateway_returned sv ps q g)
  then have "p \<in> set ps"
    using set_remove1_subset[of q ps] by auto
  then show ?case
    using gateway_returned.IH[of p]
    by (auto simp: lookup_chat_finish split: sum.splits)
qed



section \<open>A chat exchange whose gateway call fails\<close>




section \<open>The audit rows and the turns\<close>




section \<open>The participants table\<close>

text \<open>
  Claim C4, as the code has it. No operation writes the \<^verbatim>\<open>participants\<close> table: a demographic or
  survey submission creates no participant record, and no handler creates, changes or
  deletes one.
\<close>

theorem participants_untouched:
  "participants (fst (demographics_handler b1 sv)) = participants sv
   \<and> participants (fst (survey_response_handler b2 now sv)) = participants sv
   \<and> participants (fst (chat_begin b3 sv)) = participants sv
   \<and> participants (fst (chat_finish p g sv)) = participants sv
   \<and> participants (fst (chat_handler b3 gateway sv)) = participants sv
   \<and> participants (fst (save_draft_handler b4 now sv)) = participants sv"
proof -
  have f: "participants (fst (chat_finish q r s)) = participants s" for q r s
  proof (cases "bot_reply (result r)")
    case (Inl err)
    then show ?thesis by (simp add: chat_finish_thrown)
  next
    case (Inr botReply)
    then show ?thesis
      by (cases "push (js_string (chat_userId (pending_body q)))
            (js_string (chat_scenario (pending_body q))) (assistant_turn botReply) (conversations s)")
        (simp_all add: chat_finish_reply, simp add: chat_finish_def chat_failed_def)
  qed
  have b: "participants (fst (chat_begin b3 s)) = participants s" for s
    by (cases b3 s rule: chat_begin_cases) simp_all
  have "participants (fst (chat_handler b3 gateway sv)) = participants sv"
    using f by (cases b3 sv rule: chat_begin_cases) (simp_all add: chat_handler_def)
  then show ?thesis
    using f b
    by (simp add: demographics_handler_def survey_response_handler_def save_draft_handler_def
        insert_row_def insert_or_replace_def)
qed

theorem participants_untouched_witness:
  "participants (fst (demographics_handler example_demographics fresh_server)) = []
   \<and> participants (fst (survey_response_handler example_survey 1000 fresh_server)) = []
   \<and> participants (fst (chat_handler example_chat replying_gateway fresh_server)) = []
   \<and> participants (fst (save_draft_handler example_draft 1000 fresh_server)) = []"
  using participants_untouched[of example_demographics fresh_server example_survey 1000
      example_chat _ _ replying_gateway example_draft]
  by (simp add: fresh_server_tables)

text \<open>
  The claim as stated fails: after a first demographic submission, and after a first survey
  submission, both accepted, the table holds no participant record.
\<close>

theorem no_participant_created_counterexample:
  "snd (demographics_handler example_demographics fresh_server) = (200, Status_body ''saved'')
   \<and> participants (fst (demographics_handler example_demographics fresh_server)) = []
   \<and> snd (survey_response_handler example_survey 1000 fresh_server) = (200, Status_body ''saved'')
   \<and> participants (fst (survey_response_handler example_survey 1000 fresh_server)) = []"
  by (simp add: demographics_handler_def survey_response_handler_def insert_row_def
      insert_or_replace_def example_demographics_def example_survey_def fresh_server_def falsy_def)

section \<open>The guard of /chat\<close>

text \<open>
  Claim C6. The guard of /chat is idempotent, and for a request whose key already has a
  conversation the store is left as it is by the guard: the stored turns are all kept, and
  the turns of the request come after them.
\<close>

theorem conversation_kept:
  assumes "\<not> falsy (chat_userId b)" "\<not> falsy (chat_message b)" "\<not> falsy (chat_scenario b)"
    and "lookup (js_string (chat_userId b)) (js_string (chat_scenario b)) (conversations sv) =
           Some convo"
  shows "ensure (js_string (chat_userId b)) (js_string (chat_scenario b)) (conversations sv) =
           conversations sv
       \<and> ensure u s (ensure u s convs) = ensure u s convs
       \<and> lookup (js_string (chat_userId b)) (js_string (chat_scenario b))
             (conversations (fst (chat_begin b sv))) = Some (convo @ [user_turn b])
       \<and> lookup (js_string (chat_userId b)) (js_string (chat_scenario b))
             (conversations (fst (chat_handler b gateway sv))) =
           Some (convo @ user_turn b #
                  (case bot_reply (result (gateway (sent b sv))) of
                     Inl err \<Rightarrow> []
                   | Inr botReply \<Rightarrow> [assistant_turn botReply]))"
proof -
  let ?u = "js_string (chat_userId b)" and ?s = "js_string (chat_scenario b)"
  have st: "read_slot ?u ?s (conversations sv) = Stored convo"
    using assms(4) by (simp add: read_slot_Stored)
  then have ok: "read_slot ?u ?s (conversations sv) \<noteq> Not_an_array"
    "read_slot ?u ?s (conversations sv) \<noteq> Outside"
    by simp_all
  from chat_begin_sent[OF assms(1-3) ok] obtain convs2 where
    "chat_begin b sv =
       (sv\<lparr>conversations := convs2\<rparr>, Awaiting \<lparr>pending_body = b, pending_request = sent b sv\<rparr>)"
    "lookup ?u ?s convs2 = Some (ensured ?u ?s (conversations sv) @ [user_turn b])"
    by auto
  then have "lookup ?u ?s (conversations (fst (chat_begin b sv))) = Some (convo @ [user_turn b])"
    by (simp add: ensured_stored[OF assms(4)])
  then show ?thesis
    using ensure_stored[OF assms(4)] ensured_stored[OF assms(4)]
    by (simp add: ensure_ensure chat_handler_conversation[OF assms(1-3) ok])
qed

theorem conversation_kept_witness:
  "\<not> falsy (chat_userId example_chat) \<and> \<not> falsy (chat_message example_chat)
   \<and> \<not> falsy (chat_scenario example_chat)
   \<and> lookup ''p1'' ''email_to_professor''
        (conversations (fst (chat_handler example_chat refusing_gateway fresh_server))) =
      Some [system_turn ''email_to_professor'', user_turn example_chat]
   \<and> ensure ''p1'' ''email_to_professor''
        (conversations (fst (chat_handler example_chat refusing_gateway fresh_server))) =
      conversations (fst (chat_handler example_chat refusing_gateway fresh_server))
   \<and> lookup ''p1'' ''email_to_professor''
        (conversations (fst (chat_handler example_chat replying_gateway
           (fst (chat_handler example_chat refusing_gateway fresh_server))))) =
      Some [system_turn ''email_to_professor'', user_turn example_chat, user_turn example_chat,
            assistant_turn (Some ''Certainly...'')]"
  using conversation_kept[of example_chat
      "fst (chat_handler example_chat refusing_gateway fresh_server)"
      "[system_turn ''email_to_professor'', user_turn example_chat]" _ _ _ replying_gateway]
    example_refused
  by (simp add: example_chat_valid example_chat_key replying_gateway_def bot_reply_def)

section \<open>Demographics\<close>



lemma run_demographics_append:
  "run_demographics (xs @ ys) sv = run_demographics ys (run_demographics xs sv)"
  by (simp add: run_demographics_def)




section \<open>Survey responses and final drafts\<close>



section \<open>Requests that miss a required field\<close>



section \<open>A chat request without a draft\<close>




end
